theory Spec2Isabelle
  imports
    Complex_Main
    "HOL-Library.AList"
    "HOL-Library.Char_ord"
    "HOL-Library.List_Lexorder"
    "HOL-Library.Multiset"
    "HOL-Library.Product_Lexorder"
begin

section \<open>Values, errors and dictionaries\<close>

text \<open>
  The extractors are Python classes, so an argument can be a value of any Python type and
  the methods test it with \<open>isinstance\<close>. The values that the methods distinguish are
  modelled by \<open>pyval\<close>. A Python \<open>bool\<close> is an instance of \<open>int\<close> (\<open>True == 1\<close>), which
  \<open>isinstance_int\<close> and \<open>as_int\<close> keep. A finite float is a rational number, so floats
  are carried as \<open>rat\<close> and never rounded.
\<close>

datatype pyval = PyNone | PyBool bool | PyInt int | PyFloat rat | PyStr string

text \<open>
  Every \<open>raise\<close> in the methods modelled here is \<open>ValueError\<close> with a message; the
  message tells the conditions apart. Against the error kinds of the specification:
  \<open>''...must be a string''\<close>, \<open>''unit_id must be an int''\<close> and \<open>''Non-valid unit_id''\<close>
  are InvalidArgument, \<open>''This epoch has not been added''\<close> and
  \<open>''This property has not been added to this unit''\<close> are NotFound. \<open>KeyError\<close>,
  \<open>NameError\<close>, \<open>TypeError\<close> and \<open>ZeroDivisionError\<close> are the exceptions raised by
  the Python run time itself; \<open>InvalidRange\<close> is the failure of the abstract
  \<open>getTraces\<close>.
\<close>

datatype error =
    ValueError string
  | KeyError
  | NameError
  | TypeError
  | ZeroDivisionError
  | InvalidRange

definition isinstance_int :: "pyval \<Rightarrow> bool" where
  "isinstance_int v = (case v of PyInt _ \<Rightarrow> True | PyBool _ \<Rightarrow> True | _ \<Rightarrow> False)"

definition isinstance_str :: "pyval \<Rightarrow> bool" where
  "isinstance_str v = (case v of PyStr _ \<Rightarrow> True | _ \<Rightarrow> False)"

definition as_int :: "pyval \<Rightarrow> int" where
  "as_int v = (case v of PyInt i \<Rightarrow> i | PyBool b \<Rightarrow> (if b then 1 else 0) | _ \<Rightarrow> 0)"

text \<open>
  A Python \<open>dict\<close> keeps its keys in insertion order, and \<open>getEpochNames\<close> reads them in
  that order, so \<open>_epochs\<close> is an association list: \<open>d[k] = v\<close> is \<open>AList.update\<close>
  (overwrite in place, or append), \<open>del d[k]\<close> is \<open>AList.delete\<close>, \<open>d.keys()\<close> is
  \<open>map fst\<close> and \<open>d[k]\<close> is \<open>map_of\<close>, a \<open>KeyError\<close> when it finds nothing.
\<close>

definition dict_keys :: "('k \<times> 'v) list \<Rightarrow> 'k list" where
  "dict_keys d = map fst d"

definition dict_get :: "('k \<times> 'v) list \<Rightarrow> 'k \<Rightarrow> error + 'v" where
  "dict_get d k = (case map_of d k of None \<Rightarrow> Inl KeyError | Some v \<Rightarrow> Inr v)"

section \<open>RecordingExtractor\<close>

text \<open>The value of an epoch: the dict \<open>{'start_frame': ..., 'end_frame': ...}\<close>.\<close>

record epoch =
  start_frame :: int
  end_frame :: int

text \<open>
  \<open>RecordingExtractor\<close> is abstract: \<open>getTraces\<close>, \<open>getNumChannels\<close>, \<open>getNumFrames\<close>
  and \<open>getSamplingFrequency\<close> are left to the format adapters, none of which is part of
  the sources. The state of an extractor is therefore the \<open>_epochs\<close> dictionary of the
  base class together with the data that a concrete recording holds: its ordered channel
  ids, its number of frames, its sampling frequency and one sample per channel id and
  frame.
\<close>

record recording =
  rec_channel_ids :: "int list"
  rec_num_frames :: int
  rec_sampling_frequency :: rat
  rec_samples :: "int \<Rightarrow> int \<Rightarrow> rat"
  epochs :: "(string \<times> epoch) list"

text \<open>A two-dimensional array is the list of its rows, one row per channel.\<close>

type_synonym ndarray = "rat list list"

subsection \<open>The abstract primitives\<close>

text \<open>
  Modelled from the spec: \<open>getNumChannels\<close>, \<open>getNumFrames\<close> and
  \<open>getSamplingFrequency\<close> are abstract in \<open>RecordingExtractor\<close> (their bodies are
  \<open>pass\<close>); they are "abstract, pure queries" and read the recording.
\<close>

definition getNumChannels :: "recording \<Rightarrow> nat" where
  "getNumChannels r = length (rec_channel_ids r)"

definition getNumFrames :: "recording \<Rightarrow> int" where
  "getNumFrames r = rec_num_frames r"


text \<open>
  Modelled from the spec: \<open>getTraces\<close> is abstract in \<open>RecordingExtractor\<close>. The
  specification gives it the defaults \<open>start_frame = 0\<close>, \<open>end_frame = numFrames\<close> and
  all channels in the order of the source, the result shape
  \<open>len(channel_ids) \<times> (end_frame - start_frame)\<close> with the start inclusive and the end
  exclusive, and the failure InvalidRange "if start_frame > end_frame, or either bound
  outside [0, numFrames], or any requested channel id not present".
\<close>

definition getTraces ::
    "recording \<Rightarrow> int option \<Rightarrow> int option \<Rightarrow> int list option \<Rightarrow> error + ndarray" where
  "getTraces r start_fr end_fr chan_ids =
     (let s = (case start_fr of None \<Rightarrow> 0 | Some a \<Rightarrow> a);
          e = (case end_fr of None \<Rightarrow> getNumFrames r | Some b \<Rightarrow> b);
          ids = (case chan_ids of None \<Rightarrow> rec_channel_ids r | Some c \<Rightarrow> c)
      in if e < s \<or> s < 0 \<or> getNumFrames r < s \<or> e < 0 \<or> getNumFrames r < e
            \<or> \<not> list_all (\<lambda>c. c \<in> set (rec_channel_ids r)) ids
         then Inl InvalidRange
         else Inr (map (\<lambda>c. map (rec_samples r c) [s..e - 1]) ids))"

subsection \<open>Frames and times\<close>



subsection \<open>Snippets\<close>

text \<open>
  \<open>np.zeros((rows, cols))\<close> raises \<open>ValueError\<close> on a negative dimension.
\<close>

definition np_zeros :: "nat \<Rightarrow> int \<Rightarrow> error + ndarray" where
  "np_zeros rows cols =
     (if cols < 0 then Inl (ValueError ''negative dimensions are not allowed'')
      else Inr (replicate rows (replicate (nat cols) 0)))"

text \<open>
  A bound \<open>i\<close> of a Python slice over \<open>n\<close> positions: a negative bound counts from the
  end, and the result is clipped to \<open>[0, n]\<close>.
\<close>

definition slice_index :: "int \<Rightarrow> nat \<Rightarrow> nat" where
  "slice_index i n = (if i < 0 then nat (i + int n) else min (nat i) n)"

text \<open>
  \<open>chunk[:, b0:b1] = values\<close> on an array of \<open>ncols\<close> columns. The slice selects the
  columns \<open>lo \<le> j < hi\<close> (none when \<open>hi \<le> lo\<close>). numpy copies \<open>values\<close> when it has
  the rows of \<open>chunk\<close> and the width of the slice, repeats its single column when it has
  width 1, and raises \<open>ValueError\<close> for any other shape.
\<close>

definition assign_columns :: "ndarray \<Rightarrow> nat \<Rightarrow> int \<Rightarrow> int \<Rightarrow> ndarray \<Rightarrow> error + ndarray" where
  "assign_columns chunk ncols b0 b1 values =
     (let lo = slice_index b0 ncols;
          hi = max lo (slice_index b1 ncols);
          w = hi - lo
      in if length values = length chunk
            \<and> list_all (\<lambda>v. length v = w \<or> length v = 1) values
         then Inr (map2 (\<lambda>row v. take lo row @ (if length v = w then v else replicate w (hd v))
                                   @ drop hi row) chunk values)
         else Inl (ValueError ''could not broadcast input array''))"

text \<open>
  The body of the loop of \<open>getSnippets\<close> for one start frame. \<open>range0\<close>, \<open>range1\<close> are
  \<open>snippet_range\<close> and \<open>buffer0\<close>, \<open>buffer1\<close> are \<open>snippet_buffer\<close>; the primed
  names are their values after the two out-of-bounds adjustments. \<open>int(start_frames[i])\<close>
  is the identity on an int. numpy holds the two arrays as 64-bit integers; frame numbers
  are taken to lie within that range, so the arithmetic is that of \<open>int\<close>.
\<close>

definition snippet_chunk :: "recording \<Rightarrow> int \<Rightarrow> int \<Rightarrow> int list \<Rightarrow> int \<Rightarrow> error + ndarray" where
  "snippet_chunk r snippet_len_before snippet_len_after ids start =
     (let num_channels = length ids;
          num_frames = getNumFrames r;
          snippet_len = snippet_len_before + snippet_len_after
      in case np_zeros num_channels snippet_len of
           Inl err \<Rightarrow> Inl err
         | Inr chunk \<Rightarrow>
             if 0 \<le> start \<and> start < num_frames then
               (let range0 = start - snippet_len_before;
                    range1 = start + snippet_len_after;
                    buffer0 = 0;
                    buffer1 = snippet_len;
                    buffer0' = (if range0 < 0 then buffer0 - range0 else buffer0);
                    range0' = (if range0 < 0 then range0 - range0 else range0);
                    buffer1' = (if num_frames \<le> range1 then buffer1 - (range1 - num_frames)
                                else buffer1);
                    range1' = (if num_frames \<le> range1 then range1 - (range1 - num_frames)
                               else range1)
                in case getTraces r (Some range0') (Some range1') (Some ids) of
                     Inl err \<Rightarrow> Inl err
                   | Inr traces \<Rightarrow> assign_columns chunk (nat snippet_len) buffer0' buffer1' traces)
             else Inr chunk)"

text \<open>The loop over \<open>start_frames\<close>: an exception in one iteration ends the call.\<close>

fun snippets_loop :: "recording \<Rightarrow> int \<Rightarrow> int \<Rightarrow> int list \<Rightarrow> int list \<Rightarrow> error + ndarray list" where
  "snippets_loop r snippet_len_before snippet_len_after ids [] = Inr []"
| "snippets_loop r snippet_len_before snippet_len_after ids (start # rest) =
     (case snippet_chunk r snippet_len_before snippet_len_after ids start of
        Inl err \<Rightarrow> Inl err
      | Inr chunk \<Rightarrow>
          (case snippets_loop r snippet_len_before snippet_len_after ids rest of
             Inl err \<Rightarrow> Inl err
           | Inr snippets \<Rightarrow> Inr (chunk # snippets)))"

definition getSnippets ::
    "recording \<Rightarrow> int \<Rightarrow> int \<Rightarrow> int list \<Rightarrow> int list option \<Rightarrow> error + ndarray list" where
  "getSnippets r snippet_len_before snippet_len_after start_frames chan_ids =
     (let ids = (case chan_ids of
                   None \<Rightarrow> map int [0..<getNumChannels r]
                 | Some c \<Rightarrow> c)
      in snippets_loop r snippet_len_before snippet_len_after ids start_frames)"


definition zero_snippet :: "nat \<Rightarrow> int \<Rightarrow> ndarray" where
  "zero_snippet rows cols = replicate rows (replicate (nat cols) 0)"

subsection \<open>Epochs\<close>

text \<open>
  The mutating methods return the exception they raise, if any, and the extractor
  afterwards. \<open>int(start_frame)\<close> and \<open>int(end_frame)\<close> are the identity on the ints
  that the method documents as its arguments.
\<close>

definition addEpoch :: "recording \<Rightarrow> pyval \<Rightarrow> int \<Rightarrow> int \<Rightarrow> error option \<times> recording" where
  "addEpoch r epoch_name start_fr end_fr =
     (case epoch_name of
        PyStr name \<Rightarrow>
          (None, r\<lparr>epochs := AList.update name \<lparr>start_frame = start_fr, end_frame = end_fr\<rparr>
                                (epochs r)\<rparr>)
      | _ \<Rightarrow> (Some (ValueError ''epoch_name must be a string''), r))"

definition removeEpoch :: "recording \<Rightarrow> pyval \<Rightarrow> error option \<times> recording" where
  "removeEpoch r epoch_name =
     (case epoch_name of
        PyStr name \<Rightarrow>
          if name \<in> set (dict_keys (epochs r))
          then (None, r\<lparr>epochs := AList.delete name (epochs r)\<rparr>)
          else (Some (ValueError ''This epoch has not been added''), r)
      | _ \<Rightarrow> (Some (ValueError ''epoch_name must be a string''), r))"

definition getEpochInfo :: "recording \<Rightarrow> pyval \<Rightarrow> error + epoch" where
  "getEpochInfo r epoch_name =
     (case epoch_name of
        PyStr name \<Rightarrow>
          if name \<in> set (dict_keys (epochs r))
          then dict_get (epochs r) name
          else Inl (ValueError ''This epoch has not been added'')
      | _ \<Rightarrow> Inl (ValueError ''epoch_name must be a string''))"

text \<open>The loop of \<open>getEpochNames\<close> that collects \<open>epoch_start_frames\<close>.\<close>

fun epoch_start_frames :: "recording \<Rightarrow> string list \<Rightarrow> error + int list" where
  "epoch_start_frames r [] = Inr []"
| "epoch_start_frames r (epoch_name # rest) =
     (case getEpochInfo r (PyStr epoch_name) of
        Inl err \<Rightarrow> Inl err
      | Inr epoch_info \<Rightarrow>
          (case epoch_start_frames r rest of
             Inl err \<Rightarrow> Inl err
           | Inr frames \<Rightarrow> Inr (start_frame epoch_info # frames)))"

text \<open>
  \<open>sorted(zip(epoch_start_frames, epoch_names))\<close> sorts pairs: Python compares tuples
  lexicographically and strings by code point, which is the order of \<open>int \<times> string\<close>
  here.
\<close>

definition getEpochNames :: "recording \<Rightarrow> error + string list" where
  "getEpochNames r =
     (let epoch_names = dict_keys (epochs r)
      in if epoch_names = [] then Inr epoch_names
         else (case epoch_start_frames r epoch_names of
                 Inl err \<Rightarrow> Inl err
               | Inr frames \<Rightarrow> Inr (map snd (sort (zip frames epoch_names)))))"

text \<open>
  The start frame that \<open>getEpochNames\<close> reads for a stored name, through
  \<open>getEpochInfo\<close> as the method does.
\<close>

definition epoch_start :: "recording \<Rightarrow> string \<Rightarrow> int" where
  "epoch_start r name =
     (case getEpochInfo r (PyStr name) of Inr info \<Rightarrow> start_frame info | Inl _ \<Rightarrow> 0)"

text \<open>
  The order that the specification words as "sorted by ascending start_frame (stable for
  ties)": a stable sort of the stored epochs, in insertion order, on the start frame
  alone.
\<close>

definition stable_epoch_names :: "recording \<Rightarrow> string list" where
  "stable_epoch_names r = map fst (sort_key (\<lambda>(name, info). start_frame info) (epochs r))"



section \<open>SortingExtractor\<close>

text \<open>
  The state of a sorting extractor: the unit ids that a concrete sorting holds, and the
  \<open>_unit_properties\<close> of the base class, a dict of dicts of which no order is ever read,
  hence a map of maps.
\<close>

record sorting =
  sort_unit_ids :: "int list"
  unit_properties :: "int \<rightharpoonup> (string \<rightharpoonup> pyval)"

text \<open>
  Modelled from the spec: \<open>getUnitIds\<close> is abstract in \<open>SortingExtractor\<close> (its body is
  \<open>pass\<close>); it returns an "ordered sequence of int", read from the extractor.
\<close>

definition getUnitIds :: "sorting \<Rightarrow> int list" where
  "getUnitIds s = sort_unit_ids s"

text \<open>\<open>__init__\<close> sets \<open>_unit_properties\<close> to \<open>{}\<close>.\<close>

definition init_sorting :: "int list \<Rightarrow> sorting" where
  "init_sorting ids = \<lparr>sort_unit_ids = ids, unit_properties = Map.empty\<rparr>"

text \<open>
  \<open>self._unit_properties[unit_id][property_name] = property_data\<close> first reads
  \<open>self._unit_properties[unit_id]\<close>, a \<open>KeyError\<close> when the unit has no dictionary yet,
  and then stores into the dictionary it found.
\<close>

definition addUnitProperty :: "sorting \<Rightarrow> pyval \<Rightarrow> pyval \<Rightarrow> pyval \<Rightarrow> error option \<times> sorting" where
  "addUnitProperty s unit_id property_name property_data =
     (if isinstance_int unit_id then
        if as_int unit_id \<in> set (getUnitIds s) then
          (case property_name of
             PyStr name \<Rightarrow>
               (case unit_properties s (as_int unit_id) of
                  None \<Rightarrow> (Some KeyError, s)
                | Some props \<Rightarrow>
                    (None, s\<lparr>unit_properties :=
                               (unit_properties s)(as_int unit_id \<mapsto> props(name \<mapsto> property_data))\<rparr>))
           | _ \<Rightarrow> (Some (ValueError ''property_name must be a string''), s))
        else (Some (ValueError ''Non-valid unit_id''), s)
      else (Some (ValueError ''unit_id must be an int''), s))"

text \<open>
  The body of \<open>getUnitProperty\<close>, as a function of the \<open>unit_id\<close> that it reads.
\<close>

definition getUnitProperty_body :: "sorting \<Rightarrow> pyval \<Rightarrow> pyval \<Rightarrow> error + pyval" where
  "getUnitProperty_body s unit_id property_name =
     (if isinstance_int unit_id then
        if as_int unit_id \<in> dom (unit_properties s) then
          (case property_name of
             PyStr name \<Rightarrow>
               (case unit_properties s (as_int unit_id) of
                  None \<Rightarrow> Inl KeyError
                | Some props \<Rightarrow>
                    (case props name of
                       Some property_data \<Rightarrow> Inr property_data
                     | None \<Rightarrow> Inl (ValueError ''This property has not been added to this unit'')))
           | _ \<Rightarrow> Inl (ValueError ''property_name must be a string''))
        else Inl (ValueError ''Non-valid unit_id'')
      else Inl (ValueError ''unit_id must be an int''))"

text \<open>
  The method is declared \<open>def getUnitProperty(self, property_name)\<close>: \<open>unit_id\<close> is not
  among its parameters, and the module binds no such name. The body looks \<open>unit_id\<close> up
  among the names in scope and raises \<open>NameError\<close> when there is none.
\<close>

definition getUnitProperty :: "sorting \<Rightarrow> pyval \<Rightarrow> error + pyval" where
  "getUnitProperty s property_name =
     (case map_of [(''property_name'', property_name)] ''unit_id'' of
        None \<Rightarrow> Inl NameError
      | Some unit_id \<Rightarrow> getUnitProperty_body s unit_id property_name)"

text \<open>
  A call \<open>sorting.getUnitProperty(*args)\<close>: Python raises \<open>TypeError\<close> unless exactly
  the one declared argument is passed.
\<close>

definition call_getUnitProperty :: "sorting \<Rightarrow> pyval list \<Rightarrow> error + pyval" where
  "call_getUnitProperty s args =
     (case args of
        [property_name] \<Rightarrow> getUnitProperty s property_name
      | _ \<Rightarrow> Inl TypeError)"

section \<open>Example extractors\<close>

text \<open>
  A recording of two channels with the ids 3 and 7 and 100 frames, whose sample on
  channel \<open>c\<close> at frame \<open>f\<close> is \<open>1000 c + f + 1\<close> (never zero), with no epoch yet.
\<close>

definition demo :: recording where
  "demo = \<lparr>rec_channel_ids = [3, 7], rec_num_frames = 100, rec_sampling_frequency = 30000,
           rec_samples = (\<lambda>c f. of_int (c * 1000 + f + 1)), epochs = []\<rparr>"

text \<open>
  The epochs "a" = [0, 10) and "b" = [10, 20) added in both orders, and two epochs with the
  same start frame added in the order "b", "a".
\<close>

definition epochs_ab :: recording where
  "epochs_ab = snd (addEpoch (snd (addEpoch demo (PyStr ''a'') 0 10)) (PyStr ''b'') 10 20)"

definition epochs_ba :: recording where
  "epochs_ba = snd (addEpoch (snd (addEpoch demo (PyStr ''b'') 10 20)) (PyStr ''a'') 0 10)"

definition epochs_tie :: recording where
  "epochs_tie = snd (addEpoch (snd (addEpoch demo (PyStr ''b'') 0 10)) (PyStr ''a'') 0 20)"

text \<open>
  A sorting extractor with the units 1 and 2 as \<open>__init__\<close> leaves it, and one in which
  unit 1 already has a property dictionary (as a subclass may have stored).
\<close>

definition units_fresh :: sorting where
  "units_fresh = init_sorting [1, 2]"

definition units_ready :: sorting where
  "units_ready = \<lparr>sort_unit_ids = [1, 2], unit_properties = [1 \<mapsto> Map.empty]\<rparr>"

section \<open>Dictionaries\<close>

lemma keys_update: "set (dict_keys (AList.update k v d)) = insert k (set (dict_keys d))"
  by (simp add: dict_keys_def AList.dom_update)

lemma keys_delete: "set (dict_keys (AList.delete k d)) = set (dict_keys d) - {k}"
  by (simp add: dict_keys_def AList.delete_keys)

lemma dict_get_update_other: "k' \<noteq> k \<Longrightarrow> dict_get (AList.update k v d) k' = dict_get d k'"
  by (simp add: dict_get_def AList.update_conv')

lemma dict_get_delete_other: "k' \<noteq> k \<Longrightarrow> dict_get (AList.delete k d) k' = dict_get d k'"
  by (simp add: dict_get_def AList.delete_conv')

lemma dict_get_present: "k \<in> set (dict_keys d) \<Longrightarrow> \<exists>v. dict_get d k = Inr v \<and> map_of d k = Some v"
  unfolding dict_get_def dict_keys_def
  by (cases "map_of d k") (auto simp: map_of_eq_None_iff)

text \<open>Both mutators keep the keys of the dictionary distinct, as a \<open>dict\<close> has them.\<close>

lemma distinct_keys_addEpoch:
  "distinct (dict_keys (epochs r)) \<Longrightarrow> distinct (dict_keys (epochs (snd (addEpoch r name s e))))"
  by (cases name) (simp_all add: addEpoch_def dict_keys_def AList.distinct_update)

lemma distinct_keys_removeEpoch:
  "distinct (dict_keys (epochs r)) \<Longrightarrow> distinct (dict_keys (epochs (snd (removeEpoch r name))))"
  by (cases name) (simp_all add: removeEpoch_def dict_keys_def AList.distinct_delete)

section \<open>Epoch bookkeeping\<close>

subsection \<open>The order of \<open>getEpochNames\<close>\<close>

lemma epoch_start_frames_keys:
  "set ns \<subseteq> set (dict_keys (epochs r)) \<Longrightarrow>
   epoch_start_frames r ns = Inr (map (epoch_start r) ns)"
proof (induction ns)
  case Nil
  show ?case by simp
next
  case (Cons n ns)
  from Cons.prems have "n \<in> set (dict_keys (epochs r))" by simp
  then obtain info where "getEpochInfo r (PyStr n) = Inr info"
    using dict_get_present [of n "epochs r"] by (auto simp: getEpochInfo_def)
  moreover have "epoch_start_frames r ns = Inr (map (epoch_start r) ns)"
    using Cons by simp
  ultimately show ?case by (simp add: epoch_start_def)
qed

lemma zip_keyed: "zip (map f xs) xs = map (\<lambda>x. (f x, x)) xs"
  by (induction xs) simp_all

lemma keyed_sort_names:
  "map (\<lambda>n. (f n, n)) (map snd (sort (map (\<lambda>n. (f n, n)) ns))) = sort (map (\<lambda>n. (f n, n)) ns)"
proof -
  have "map (\<lambda>p. (f (snd p), snd p)) (sort (map (\<lambda>n. (f n, n)) ns))
          = sort (map (\<lambda>n. (f n, n)) ns)"
    by (rule map_idI) auto
  then show ?thesis
    by (simp add: comp_def)
qed

lemma getEpochNames_eq:
  "getEpochNames r = Inr (map snd (sort (map (\<lambda>n. (epoch_start r n, n)) (dict_keys (epochs r)))))"
  by (simp add: getEpochNames_def Let_def epoch_start_frames_keys zip_keyed)

text \<open>
  Claim C5, as the code has it. \<open>getEpochNames\<close> never fails and returns a permutation
  of the stored names that is sorted by ascending start frame; two epochs with the same
  start frame come in ascending order of their names (the code sorts the pairs of start
  frame and name), whatever the order in which they were added. After
  \<open>addEpoch("a", 0, 10)\<close> and \<open>addEpoch("b", 10, 20)\<close>, in either order, the result is
  \<open>["a", "b"]\<close>.
\<close>

theorem getEpochNames_sorted:
  "distinct (dict_keys (epochs r)) \<Longrightarrow>
   \<exists>ns. getEpochNames r = Inr ns
      \<and> mset ns = mset (dict_keys (epochs r))
      \<and> sorted_wrt (\<lambda>a b. epoch_start r a < epoch_start r b
                          \<or> (epoch_start r a = epoch_start r b \<and> a < b)) ns"
proof -
  assume dist: "distinct (dict_keys (epochs r))"
  define g where "g = (\<lambda>n. (epoch_start r n, n))"
  define ns where "ns = map snd (sort (map g (dict_keys (epochs r))))"
  have res: "getEpochNames r = Inr ns"
    by (simp add: getEpochNames_eq ns_def g_def)
  have keyed: "map g ns = sort (map g (dict_keys (epochs r)))"
    unfolding ns_def g_def by (rule keyed_sort_names)
  have "mset (map g ns) = mset (map g (dict_keys (epochs r)))"
    by (simp add: keyed)
  then have "mset (map snd (map g ns)) = mset (map snd (map g (dict_keys (epochs r))))"
    by (metis mset_map)
  then have perm: "mset ns = mset (dict_keys (epochs r))"
    by (simp add: g_def comp_def)
  have dist_ns: "distinct ns"
    using perm dist by (metis mset_eq_imp_distinct_iff)
  have "sorted (map g ns)"
    by (simp add: keyed)
  then have le: "sorted_wrt (\<lambda>a b. g a \<le> g b) ns"
    by (simp add: sorted_wrt_map)
  have "sorted_wrt (\<lambda>a b. epoch_start r a < epoch_start r b
                          \<or> (epoch_start r a = epoch_start r b \<and> a < b)) ns"
    unfolding sorted_wrt_iff_nth_less
  proof (intro allI impI)
    fix i j assume ij: "i < j" "j < length ns"
    then have "g (ns ! i) \<le> g (ns ! j)"
      using le by (simp add: sorted_wrt_iff_nth_less)
    moreover have "ns ! i \<noteq> ns ! j"
      using ij dist_ns by (simp add: nth_eq_iff_index_eq)
    ultimately show "epoch_start r (ns ! i) < epoch_start r (ns ! j)
        \<or> (epoch_start r (ns ! i) = epoch_start r (ns ! j) \<and> ns ! i < ns ! j)"
      by (auto simp: g_def)
  qed
  with res perm show ?thesis by blast
qed

theorem getEpochNames_sorted_witness:
  "distinct (dict_keys (epochs epochs_ba))
   \<and> dict_keys (epochs epochs_ba) = [''b'', ''a'']
   \<and> getEpochNames epochs_ba = Inr [''a'', ''b'']
   \<and> getEpochNames epochs_ab = Inr [''a'', ''b'']
   \<and> (\<exists>ns. getEpochNames epochs_ba = Inr ns
      \<and> mset ns = mset (dict_keys (epochs epochs_ba))
      \<and> sorted_wrt (\<lambda>a b. epoch_start epochs_ba a < epoch_start epochs_ba b
                          \<or> (epoch_start epochs_ba a = epoch_start epochs_ba b \<and> a < b)) ns)"
proof -
  have d: "distinct (dict_keys (epochs epochs_ba))"
    by (simp add: epochs_ba_def addEpoch_def demo_def dict_keys_def)
  have k: "dict_keys (epochs epochs_ba) = [''b'', ''a'']"
    by (simp add: epochs_ba_def addEpoch_def demo_def dict_keys_def)
  have ba: "getEpochNames epochs_ba = Inr [''a'', ''b'']"
    by (simp add: epochs_ba_def getEpochNames_def addEpoch_def demo_def dict_keys_def
        getEpochInfo_def dict_get_def)
  have ab: "getEpochNames epochs_ab = Inr [''a'', ''b'']"
    by (simp add: epochs_ab_def getEpochNames_def addEpoch_def demo_def dict_keys_def
        getEpochInfo_def dict_get_def)
  from d k ba ab getEpochNames_sorted [OF d] show ?thesis by blast
qed

text \<open>
  Claim C5 as stated asks for a stable order on ties, that is insertion order. With "b"
  added before "a", both starting at frame 0, the stable order is \<open>["b", "a"]\<close> and the
  code returns \<open>["a", "b"]\<close>.
\<close>

theorem getEpochNames_stable_counterexample:
  "dict_keys (epochs epochs_tie) = [''b'', ''a'']
   \<and> getEpochInfo epochs_tie (PyStr ''b'') = Inr \<lparr>start_frame = 0, end_frame = 10\<rparr>
   \<and> getEpochInfo epochs_tie (PyStr ''a'') = Inr \<lparr>start_frame = 0, end_frame = 20\<rparr>
   \<and> stable_epoch_names epochs_tie = [''b'', ''a'']
   \<and> getEpochNames epochs_tie = Inr [''a'', ''b'']"
  by (simp add: epochs_tie_def getEpochNames_def stable_epoch_names_def addEpoch_def demo_def
      dict_keys_def getEpochInfo_def dict_get_def)

subsection \<open>Well-formed epochs\<close>







subsection \<open>Missing epochs\<close>

text \<open>
  Claim C7. For a string \<open>name\<close> that is not a stored epoch, \<open>removeEpoch(name)\<close> and
  \<open>getEpochInfo(name)\<close> both fail with the NotFound error "This epoch has not been added"
  and the extractor is unchanged (\<open>getEpochInfo\<close> is a query and returns no new state);
  after a \<open>removeEpoch(name)\<close> that succeeded, \<open>getEpochInfo(name)\<close> fails with that
  error; for a stored name neither fails.
\<close>

theorem epoch_not_found:
  "(name \<notin> set (dict_keys (epochs r)) \<longrightarrow>
      removeEpoch r (PyStr name) = (Some (ValueError ''This epoch has not been added''), r)
    \<and> getEpochInfo r (PyStr name) = Inl (ValueError ''This epoch has not been added''))
   \<and> (fst (removeEpoch r (PyStr name)) = None \<longrightarrow>
        getEpochInfo (snd (removeEpoch r (PyStr name))) (PyStr name)
          = Inl (ValueError ''This epoch has not been added''))
   \<and> (name \<in> set (dict_keys (epochs r)) \<longrightarrow>
        fst (removeEpoch r (PyStr name)) = None
      \<and> (\<exists>info. getEpochInfo r (PyStr name) = Inr info))"
  using dict_get_present [of name "epochs r"]
  by (auto simp: removeEpoch_def getEpochInfo_def keys_delete)

theorem epoch_not_found_witness:
  "''c'' \<notin> set (dict_keys (epochs epochs_ab))
   \<and> removeEpoch epochs_ab (PyStr ''c'')
       = (Some (ValueError ''This epoch has not been added''), epochs_ab)
   \<and> getEpochInfo epochs_ab (PyStr ''c'') = Inl (ValueError ''This epoch has not been added'')
   \<and> ''a'' \<in> set (dict_keys (epochs epochs_ab))
   \<and> fst (removeEpoch epochs_ab (PyStr ''a'')) = None
   \<and> (\<exists>info. getEpochInfo epochs_ab (PyStr ''a'') = Inr info)
   \<and> getEpochInfo (snd (removeEpoch epochs_ab (PyStr ''a''))) (PyStr ''a'')
       = Inl (ValueError ''This epoch has not been added'')"
proof -
  have c: "''c'' \<notin> set (dict_keys (epochs epochs_ab))"
    by (simp add: epochs_ab_def addEpoch_def demo_def dict_keys_def)
  have a: "''a'' \<in> set (dict_keys (epochs epochs_ab))"
    by (simp add: epochs_ab_def addEpoch_def demo_def dict_keys_def)
  from c a epoch_not_found [of "''c''" epochs_ab] epoch_not_found [of "''a''" epochs_ab]
  show ?thesis by simp
qed

subsection \<open>Other epochs are untouched\<close>

text \<open>
  Claim C10. \<open>addEpoch(name, start, end)\<close> and \<open>removeEpoch(name)\<close> leave the answer of
  \<open>getEpochInfo\<close> unchanged for every other name, whether they succeed or fail.
\<close>

theorem epoch_frame:
  "n' \<noteq> name \<Longrightarrow>
     getEpochInfo (snd (addEpoch r name s e)) n' = getEpochInfo r n'
   \<and> getEpochInfo (snd (removeEpoch r name)) n' = getEpochInfo r n'"
  by (cases name; cases n')
     (auto simp: addEpoch_def removeEpoch_def getEpochInfo_def keys_update keys_delete
        dict_get_update_other dict_get_delete_other)

theorem epoch_frame_witness:
  "PyStr ''a'' \<noteq> PyStr ''b''
   \<and> getEpochInfo (snd (addEpoch epochs_ab (PyStr ''b'') 30 40)) (PyStr ''a'')
       = Inr \<lparr>start_frame = 0, end_frame = 10\<rparr>
   \<and> getEpochInfo (snd (removeEpoch epochs_ab (PyStr ''b''))) (PyStr ''a'')
       = Inr \<lparr>start_frame = 0, end_frame = 10\<rparr>"
proof -
  have ne: "PyStr ''a'' \<noteq> PyStr ''b''" by simp
  have info: "getEpochInfo epochs_ab (PyStr ''a'') = Inr \<lparr>start_frame = 0, end_frame = 10\<rparr>"
    by (simp add: epochs_ab_def addEpoch_def demo_def getEpochInfo_def dict_keys_def dict_get_def)
  from ne info epoch_frame [OF ne, of epochs_ab 30 40] show ?thesis by simp
qed

section \<open>Unit properties\<close>

text \<open>
  Claim C8. \<open>addUnitProperty(unit_id, name, data)\<close> fails with InvalidArgument, a
  \<open>ValueError\<close> whose message names the first check that failed, whenever \<open>unit_id\<close> is
  not an int, or is an int that is not in \<open>getUnitIds()\<close>, or the name is not a string; the
  extractor after the failed call is the extractor before it.
\<close>

theorem addUnitProperty_invalid:
  "\<not> isinstance_int unit_id \<or> as_int unit_id \<notin> set (getUnitIds s)
     \<or> \<not> isinstance_str property_name \<Longrightarrow>
   addUnitProperty s unit_id property_name property_data =
     (Some (ValueError
        (if \<not> isinstance_int unit_id then ''unit_id must be an int''
         else if as_int unit_id \<notin> set (getUnitIds s) then ''Non-valid unit_id''
         else ''property_name must be a string'')), s)"
  by (cases property_name) (auto simp: addUnitProperty_def isinstance_str_def)

theorem addUnitProperty_invalid_witness:
  "\<not> isinstance_int (PyStr ''x'')
   \<and> addUnitProperty units_ready (PyStr ''x'') (PyStr ''quality'') (PyFloat (9 / 10))
       = (Some (ValueError ''unit_id must be an int''), units_ready)
   \<and> as_int (PyInt 5) \<notin> set (getUnitIds units_ready)
   \<and> addUnitProperty units_ready (PyInt 5) (PyStr ''quality'') (PyFloat (9 / 10))
       = (Some (ValueError ''Non-valid unit_id''), units_ready)
   \<and> \<not> isinstance_str (PyInt 0)
   \<and> addUnitProperty units_ready (PyInt 1) (PyInt 0) (PyFloat (9 / 10))
       = (Some (ValueError ''property_name must be a string''), units_ready)"
proof -
  have a: "\<not> isinstance_int (PyStr ''x'')"
    by (simp add: isinstance_int_def)
  have b: "as_int (PyInt 5) \<notin> set (getUnitIds units_ready)" "isinstance_int (PyInt 5)"
    by (simp_all add: as_int_def getUnitIds_def units_ready_def isinstance_int_def)
  have c: "\<not> isinstance_str (PyInt 0)" "isinstance_int (PyInt 1)"
      "as_int (PyInt 1) \<in> set (getUnitIds units_ready)"
    by (simp_all add: as_int_def getUnitIds_def units_ready_def isinstance_int_def
        isinstance_str_def)
  from a b c
    addUnitProperty_invalid [of "PyStr ''x''" units_ready "PyStr ''quality''" "PyFloat (9 / 10)"]
    addUnitProperty_invalid [of "PyInt 5" units_ready "PyStr ''quality''" "PyFloat (9 / 10)"]
    addUnitProperty_invalid [of "PyInt 1" units_ready "PyInt 0" "PyFloat (9 / 10)"]
  show ?thesis by simp
qed

text \<open>
  Claim C4 fails on the code. On an extractor that \<open>__init__\<close> has just set up, unit 1 is in
  \<open>getUnitIds()\<close> and \<open>addUnitProperty(1, "quality", 0.9)\<close> raises \<open>KeyError\<close>: no
  dictionary was ever created for the unit. Where the unit has one, the call succeeds, but
  the value cannot be read back: \<open>getUnitProperty(1, "quality")\<close> raises \<open>TypeError\<close>
  and \<open>getUnitProperty("quality")\<close> raises \<open>NameError\<close>, although the body of the
  method, given the unit id, would return the stored value.
\<close>

theorem unit_property_fresh_unit:
  "as_int (PyInt 1) \<in> set (getUnitIds units_fresh)
   \<and> addUnitProperty units_fresh (PyInt 1) (PyStr ''quality'') (PyFloat (9 / 10))
       = (Some KeyError, units_fresh)
   \<and> fst (addUnitProperty units_ready (PyInt 1) (PyStr ''quality'') (PyFloat (9 / 10))) = None
   \<and> call_getUnitProperty
        (snd (addUnitProperty units_ready (PyInt 1) (PyStr ''quality'') (PyFloat (9 / 10))))
        [PyInt 1, PyStr ''quality''] = Inl TypeError
   \<and> call_getUnitProperty
        (snd (addUnitProperty units_ready (PyInt 1) (PyStr ''quality'') (PyFloat (9 / 10))))
        [PyStr ''quality''] = Inl NameError
   \<and> getUnitProperty_body
        (snd (addUnitProperty units_ready (PyInt 1) (PyStr ''quality'') (PyFloat (9 / 10))))
        (PyInt 1) (PyStr ''quality'') = Inr (PyFloat (9 / 10))"
  by (simp add: addUnitProperty_def units_fresh_def units_ready_def init_sorting_def
      isinstance_int_def as_int_def getUnitIds_def call_getUnitProperty_def getUnitProperty_def
      getUnitProperty_body_def)

section \<open>Frames and times\<close>



section \<open>Snippets\<close>

subsection \<open>Traces and column assignment\<close>




subsection \<open>The window of a snippet\<close>






subsection \<open>One start frame\<close>


lemma snippet_chunk_out_of_range:
  assumes "0 \<le> before + after" "s < 0 \<or> getNumFrames r \<le> s"
  shows "snippet_chunk r before after ids s = Inr (zero_snippet (length ids) (before + after))"
  using assms by (auto simp: snippet_chunk_def np_zeros_def zero_snippet_def)

subsection \<open>The loop\<close>

lemma snippets_loop_entries:
  "snippets_loop r before after ids ss = Inr snips \<Longrightarrow>
   length snips = length ss
   \<and> (\<forall>i < length ss. snippet_chunk r before after ids (ss ! i) = Inr (snips ! i))"
proof (induction ss arbitrary: snips)
  case Nil
  then show ?case by simp
next
  case (Cons s ss)
  from Cons.prems obtain chunk rest where
    c: "snippet_chunk r before after ids s = Inr chunk" and
    l: "snippets_loop r before after ids ss = Inr rest" and
    e: "snips = chunk # rest"
    by (auto split: sum.splits)
  from Cons.IH [OF l] c e show ?case
    by (auto simp: nth_Cons split: nat.splits)
qed



subsection \<open>The claims on \<open>getSnippets\<close>\<close>



text \<open>
  Claim C2. For a start frame \<open>s < 0\<close> or \<open>s \<ge> numFrames\<close> (and a snippet length that is
  not negative) \<open>getSnippets\<close> raises nothing and returns a snippet of zeros with
  \<open>lenBefore + lenAfter\<close> columns and one row per channel: per requested channel id, or
  per channel of the recording when no ids are given. The same holds for that entry of any
  longer list of start frames for which the call returns. \<open>getTraces\<close>, in contrast,
  fails on a bound below 0 or above \<open>numFrames\<close>.
\<close>

theorem getSnippets_out_of_bounds:
  assumes "0 \<le> before + after" "s < 0 \<or> getNumFrames r \<le> s"
  shows "getSnippets r before after [s] (Some ids)
           = Inr [zero_snippet (length ids) (before + after)]
       \<and> getSnippets r before after [s] None
           = Inr [zero_snippet (getNumChannels r) (before + after)]
       \<and> (getSnippets r before after (pre @ s # post) (Some ids) = Inr snippets \<longrightarrow>
            snippets ! length pre = zero_snippet (length ids) (before + after))
       \<and> (s < 0 \<or> getNumFrames r < s \<longrightarrow>
            getTraces r (Some s) end_fr chan_ids = Inl InvalidRange
          \<and> getTraces r start_fr (Some s) chan_ids = Inl InvalidRange)"
proof -
  have chunk: "snippet_chunk r before after xs s
                 = Inr (zero_snippet (length xs) (before + after))" for xs
    using assms by (rule snippet_chunk_out_of_range)
  have a: "getSnippets r before after [s] (Some ids)
             = Inr [zero_snippet (length ids) (before + after)]"
    by (simp add: getSnippets_def chunk)
  have b: "getSnippets r before after [s] None
             = Inr [zero_snippet (getNumChannels r) (before + after)]"
    by (simp add: getSnippets_def chunk)
  have c: "snippets ! length pre = zero_snippet (length ids) (before + after)"
    if "getSnippets r before after (pre @ s # post) (Some ids) = Inr snippets"
  proof -
    from that have "snippets_loop r before after ids (pre @ s # post) = Inr snippets"
      by (simp add: getSnippets_def)
    from snippets_loop_entries [OF this]
    have every: "\<forall>i < length (pre @ s # post).
        snippet_chunk r before after ids ((pre @ s # post) ! i) = Inr (snippets ! i)"
      by blast
    have "length pre < length (pre @ s # post)"
      by simp
    with every have "snippet_chunk r before after ids ((pre @ s # post) ! length pre)
            = Inr (snippets ! length pre)"
      by blast
    then show ?thesis by (simp add: chunk)
  qed
  have d: "getTraces r (Some s) end_fr chan_ids = Inl InvalidRange
         \<and> getTraces r start_fr (Some s) chan_ids = Inl InvalidRange"
    if "s < 0 \<or> getNumFrames r < s"
    using that by (auto simp: getTraces_def Let_def)
  from a b c d show ?thesis by blast
qed

theorem getSnippets_out_of_bounds_witness:
  "(0::int) \<le> 2 + 1
   \<and> getNumFrames demo \<le> 100
   \<and> getSnippets demo 2 1 [100] (Some [7, 3]) = Inr [[[0, 0, 0], [0, 0, 0]]]
   \<and> getSnippets demo 2 1 [- 1] None = Inr [[[0, 0, 0], [0, 0, 0]]]
   \<and> getSnippets demo 2 1 [1, 100] (Some [7]) = Inr [[[0, 7001, 7002]], [[0, 0, 0]]]
   \<and> [[[0, 7001, 7002]], [[0, 0, 0]]] ! length [1::int] = [[0, 0, 0 :: rat]]
   \<and> getTraces demo (Some (- 1)) (Some 5) None = Inl InvalidRange
   \<and> getTraces demo (Some 0) (Some 101) None = Inl InvalidRange"
proof -
  have n: "getNumFrames demo = 100"
    by (simp add: getNumFrames_def demo_def)
  have chans: "getNumChannels demo = 2"
    by (simp add: getNumChannels_def demo_def)
  have len: "(0::int) \<le> 2 + 1" by simp
  have hi: "(100::int) < 0 \<or> getNumFrames demo \<le> 100" by (simp add: n)
  have lo: "(- 1::int) < 0 \<or> getNumFrames demo \<le> - 1" by simp
  have far: "(101::int) < 0 \<or> getNumFrames demo \<le> 101" by (simp add: n)
  have mixed: "getSnippets demo 2 1 ([1] @ 100 # []) (Some [7])
                 = Inr [[[0, 7001, 7002]], [[0, 0, 0]]]"
    by (simp add: getSnippets_def snippet_chunk_def np_zeros_def getTraces_def Let_def
        assign_columns_def slice_index_def getNumFrames_def demo_def upto_rec1 eval_nat_numeral)
  from getSnippets_out_of_bounds [OF len hi, where ids = "[7, 3]"]
  have a: "getSnippets demo 2 1 [100] (Some [7, 3]) = Inr [[[0, 0, 0], [0, 0, 0]]]"
    by (simp add: zero_snippet_def eval_nat_numeral)
  from getSnippets_out_of_bounds [OF len hi, where ids = "[7]" and pre = "[1]" and post = "[]"
      and snippets = "[[[0, 7001, 7002]], [[0, 0, 0]]]"] mixed
  have a': "[[[0, 7001, 7002]], [[0, 0, 0]]] ! length [1::int] = [[0, 0, 0 :: rat]]"
    by simp
  from getSnippets_out_of_bounds [OF len lo, where end_fr = "Some 5" and chan_ids = None]
  have b: "getSnippets demo 2 1 [- 1] None = Inr [[[0, 0, 0], [0, 0, 0]]]"
      "getTraces demo (Some (- 1)) (Some 5) None = Inl InvalidRange"
    by (simp_all add: zero_snippet_def eval_nat_numeral chans)
  from getSnippets_out_of_bounds [OF len far, where start_fr = "Some 0" and chan_ids = None]
  have c: "getTraces demo (Some 0) (Some 101) None = Inl InvalidRange"
    by (simp add: n)
  from len n a a' b c mixed show ?thesis by simp
qed

text \<open>
  Claim C3, as the code has it. With 100 frames, \<open>lenBefore = lenAfter = 10\<close> and the
  single start frame -5, the start frame is outside the recording and the snippet is all
  zero: its first 15 columns are zero, and so are its remaining 5 columns.
\<close>

theorem getSnippets_start_before_zero:
  assumes "getNumFrames r = 100"
  shows "getSnippets r 10 10 [- 5] chan_ids
           = Inr [zero_snippet (case chan_ids of None \<Rightarrow> getNumChannels r | Some c \<Rightarrow> length c) 20]
       \<and> map (take 15) (zero_snippet n 20) = zero_snippet n 15
       \<and> map (drop 15) (zero_snippet n 20) = zero_snippet n 5"
proof -
  have "snippet_chunk r 10 10 xs (- 5) = Inr (zero_snippet (length xs) 20)" for xs
    using snippet_chunk_out_of_range [of 10 10 "- 5" r xs] by simp
  then have "getSnippets r 10 10 [- 5] chan_ids
           = Inr [zero_snippet (case chan_ids of None \<Rightarrow> getNumChannels r | Some c \<Rightarrow> length c) 20]"
    by (cases chan_ids) (simp_all add: getSnippets_def)
  then show ?thesis
    by (simp add: zero_snippet_def)
qed

theorem getSnippets_start_before_zero_witness:
  "getNumFrames demo = 100
   \<and> getSnippets demo 10 10 [- 5] (Some [3]) = Inr [[replicate 20 0]]
   \<and> getSnippets demo 10 10 [- 5] None = Inr [[replicate 20 0, replicate 20 0]]"
proof -
  have n: "getNumFrames demo = 100"
    by (simp add: getNumFrames_def demo_def)
  from getSnippets_start_before_zero [OF n, of "Some [3]"]
    getSnippets_start_before_zero [OF n, of None]
  have a: "getSnippets demo 10 10 [- 5] (Some [3]) = Inr [[replicate 20 0]]"
      "getSnippets demo 10 10 [- 5] None = Inr [[replicate 20 0, replicate 20 0]]"
    by (simp_all add: zero_snippet_def getNumChannels_def demo_def eval_nat_numeral)
  from n a show ?thesis by blast
qed

text \<open>
  Claim C3 as stated has the remaining 5 columns equal to \<open>getTraces(0, 5)\<close>. On the example
  recording they are zero, and \<open>getTraces(0, 5)\<close> on channel 3 is not.
\<close>

theorem getSnippets_start_before_zero_counterexample:
  "getNumFrames demo = 100
   \<and> map_sum id (map (map (drop 15))) (getSnippets demo 10 10 [- 5] (Some [3]))
       = Inr [[[0, 0, 0, 0, 0]]]
   \<and> getTraces demo (Some 0) (Some 5) (Some [3]) = Inr [[3001, 3002, 3003, 3004, 3005]]"
  by (simp add: getNumFrames_def demo_def getSnippets_def snippet_chunk_def np_zeros_def
      getTraces_def Let_def upto_rec1 eval_nat_numeral)

end
